theory Spec2Isabelle
  imports Complex_Main
begin

section \<open>Power system simulator: the power-factor model\<close>

text \<open>
  A shallow embedding of \<^verbatim>\<open>power_system_simulator.py\<close>. Python floats are read as
  the real numbers they approximate (type \<^typ>\<open>real\<close>): rounding, signed zeros, infinities
  and NaN are outside this model. An exception of the source is a value \<open>Inl e\<close> of a
  sum type, so a function that cannot raise is one that always returns \<open>Inr\<close>.
\<close>

subsection \<open>The library functions the source calls\<close>

datatype py_error = ZeroDivisionError | ValueError | OverflowError

text \<open>Python's \<^verbatim>\<open>a / b\<close> raises on a zero divisor.\<close>

definition py_truediv :: "real \<Rightarrow> real \<Rightarrow> py_error + real" where
  "py_truediv a b = (if b = 0 then Inl ZeroDivisionError else Inr (a / b))"

text \<open>\<^verbatim>\<open>math.sqrt\<close> raises a domain error on a negative argument.\<close>

definition math_sqrt :: "real \<Rightarrow> py_error + real" where
  "math_sqrt x = (if x < 0 then Inl ValueError else Inr (sqrt x))"

text \<open>\<^verbatim>\<open>math.atan2(y, x)\<close>: the angle of the point \<open>(x, y)\<close>, in \<open>(-pi, pi]\<close>.\<close>

definition math_atan2 :: "real \<Rightarrow> real \<Rightarrow> real" where
  "math_atan2 y x =
     (if 0 < x then arctan (y / x)
      else if x < 0 then (if 0 \<le> y then arctan (y / x) + pi else arctan (y / x) - pi)
      else if 0 < y then pi / 2
      else if y < 0 then - (pi / 2)
      else 0)"

definition math_degrees :: "real \<Rightarrow> real" where
  "math_degrees x = x * 180 / pi"

definition math_radians :: "real \<Rightarrow> real" where
  "math_radians x = x * pi / 180"

text \<open>Python's \<^verbatim>\<open>x % m\<close> on floats, for a positive \<open>m\<close>: the result has the sign of \<open>m\<close>.\<close>

definition py_mod :: "real \<Rightarrow> real \<Rightarrow> real" where
  "py_mod x m = x - m * of_int \<lfloor>x / m\<rfloor>"

text \<open>Python's \<^verbatim>\<open>round(x)\<close> with one argument: to the nearest integer, ties to even.\<close>

definition py_round :: "real \<Rightarrow> int" where
  "py_round x =
     (let f = \<lfloor>x\<rfloor>; d = x - of_int f
      in if d < 1 / 2 then f
         else if 1 / 2 < d then f + 1
         else if even f then f else f + 1)"

subsection \<open>\<^verbatim>\<open>calculate_power_factor\<close> (lines 10 to 19)\<close>

text \<open>
  The result is the tuple of the source, in its order:
  \<open>(current, power_factor, angle, real_power, apparent_power, reactive_power)\<close>.
\<close>

type_synonym sample = "real \<times> real \<times> real \<times> real \<times> real \<times> real"

definition calculate_power_factor :: "real \<Rightarrow> real \<Rightarrow> real \<Rightarrow> real \<Rightarrow> py_error + sample" where
  "calculate_power_factor voltage impedance_real impedance_imag excitation_current =
     (let compensated_impedance_imag = impedance_imag - excitation_current * 2
      in case math_sqrt (impedance_real\<^sup>2 + compensated_impedance_imag\<^sup>2) of
           Inl e \<Rightarrow> Inl e
         | Inr impedance_magnitude \<Rightarrow>
      (case (if 0 < impedance_magnitude then py_truediv voltage impedance_magnitude else Inr 0) of
           Inl e \<Rightarrow> Inl e
         | Inr current \<Rightarrow>
      (let angle = math_degrees (math_atan2 compensated_impedance_imag impedance_real);
           real_power = voltage * current * cos (math_radians angle);
           apparent_power = voltage * current;
           reactive_power = voltage * current * sin (math_radians angle)
       in case (if 0 < apparent_power then py_truediv real_power apparent_power else Inr 0) of
            Inl e \<Rightarrow> Inl e
          | Inr power_factor \<Rightarrow>
              Inr (current, max 0 (min power_factor 1), angle,
                   real_power, apparent_power, reactive_power))))"

text \<open>The local variables of the function, as functions of its arguments.\<close>

definition compensated_reactance :: "real \<Rightarrow> real \<Rightarrow> real" where
  "compensated_reactance impedance_imag excitation_current =
     impedance_imag - excitation_current * 2"

definition magnitude :: "real \<Rightarrow> real \<Rightarrow> real \<Rightarrow> real" where
  "magnitude impedance_real impedance_imag excitation_current =
     sqrt (impedance_real\<^sup>2 + (compensated_reactance impedance_imag excitation_current)\<^sup>2)"

definition current_of :: "real \<Rightarrow> real \<Rightarrow> real \<Rightarrow> real \<Rightarrow> real" where
  "current_of v r x e = (if 0 < magnitude r x e then v / magnitude r x e else 0)"

definition angle_of :: "real \<Rightarrow> real \<Rightarrow> real \<Rightarrow> real" where
  "angle_of r x e = math_degrees (math_atan2 (compensated_reactance x e) r)"

definition real_power_of :: "real \<Rightarrow> real \<Rightarrow> real \<Rightarrow> real \<Rightarrow> real" where
  "real_power_of v r x e = v * current_of v r x e * cos (math_radians (angle_of r x e))"

definition apparent_power_of :: "real \<Rightarrow> real \<Rightarrow> real \<Rightarrow> real \<Rightarrow> real" where
  "apparent_power_of v r x e = v * current_of v r x e"

definition reactive_power_of :: "real \<Rightarrow> real \<Rightarrow> real \<Rightarrow> real \<Rightarrow> real" where
  "reactive_power_of v r x e = v * current_of v r x e * sin (math_radians (angle_of r x e))"

definition raw_power_factor :: "real \<Rightarrow> real \<Rightarrow> real \<Rightarrow> real \<Rightarrow> real" where
  "raw_power_factor v r x e =
     (if 0 < apparent_power_of v r x e then real_power_of v r x e / apparent_power_of v r x e
      else 0)"

section \<open>The power-factor model in double precision\<close>

text \<open>
  The exact reading above has no overflow, no underflow and no rounding. The definitions
  of this section read the same function over IEEE 754 binary64 values, which is what a
  Python float is. Signed zeros are not distinguished.
\<close>

subsection \<open>Rounding to a double\<close>

text \<open>
  Round to nearest, ties to even, with 53 significant bits and gradual underflow: the
  spacing of the doubles around \<open>x\<close> is \<open>2\<close> to the power \<open>ulp_exp x\<close>.
\<close>

definition ulp_exp :: "real \<Rightarrow> int" where
  "ulp_exp x = max \<lfloor>log 2 \<bar>x\<bar>\<rfloor> (- 1022) - 52"

definition fl_real :: "real \<Rightarrow> real" where
  "fl_real x = of_int (py_round (x / power_int 2 (ulp_exp x))) * power_int 2 (ulp_exp x)"

text \<open>A Python float: a finite value, one of the two infinities, or not-a-number.\<close>

datatype pyfloat = Fin real | PInf | NInf | NaN

definition overflow_threshold :: real where
  "overflow_threshold = 2 ^ 1024"

definition fl :: "real \<Rightarrow> pyfloat" where
  "fl x =
     (let y = fl_real x
      in if overflow_threshold \<le> y then PInf
         else if y \<le> - overflow_threshold then NInf
         else Fin y)"

definition is_double :: "real \<Rightarrow> bool" where
  "is_double x \<longleftrightarrow> fl x = Fin x"

fun f_neg :: "pyfloat \<Rightarrow> pyfloat" where
  "f_neg (Fin a) = Fin (- a)"
| "f_neg PInf = NInf"
| "f_neg NInf = PInf"
| "f_neg NaN = NaN"

fun f_add :: "pyfloat \<Rightarrow> pyfloat \<Rightarrow> pyfloat" where
  "f_add (Fin a) (Fin b) = fl (a + b)"
| "f_add NaN b = NaN"
| "f_add a NaN = NaN"
| "f_add PInf NInf = NaN"
| "f_add NInf PInf = NaN"
| "f_add PInf b = PInf"
| "f_add a PInf = PInf"
| "f_add NInf b = NInf"
| "f_add a NInf = NInf"

definition f_sub :: "pyfloat \<Rightarrow> pyfloat \<Rightarrow> pyfloat" where
  "f_sub a b = f_add a (f_neg b)"

fun f_sign :: "pyfloat \<Rightarrow> int" where
  "f_sign (Fin a) = (if 0 < a then 1 else if a < 0 then - 1 else 0)"
| "f_sign PInf = 1"
| "f_sign NInf = - 1"
| "f_sign NaN = 0"

definition signed_inf :: "int \<Rightarrow> pyfloat" where
  "signed_inf s = (if s = 0 then NaN else if 0 < s then PInf else NInf)"

fun f_mul :: "pyfloat \<Rightarrow> pyfloat \<Rightarrow> pyfloat" where
  "f_mul (Fin a) (Fin b) = fl (a * b)"
| "f_mul NaN b = NaN"
| "f_mul a NaN = NaN"
| "f_mul a b = signed_inf (f_sign a * f_sign b)"

fun f_div :: "pyfloat \<Rightarrow> pyfloat \<Rightarrow> pyfloat" where
  "f_div (Fin a) (Fin b) = fl (a / b)"
| "f_div NaN b = NaN"
| "f_div a NaN = NaN"
| "f_div (Fin a) b = Fin 0"
| "f_div a (Fin b) = signed_inf (f_sign a * f_sign (Fin b))"
| "f_div a b = NaN"

fun f_less :: "pyfloat \<Rightarrow> pyfloat \<Rightarrow> bool" where
  "f_less (Fin a) (Fin b) = (a < b)"
| "f_less NaN b = False"
| "f_less a NaN = False"
| "f_less a PInf = (a \<noteq> PInf)"
| "f_less NInf b = (b \<noteq> NInf)"
| "f_less a b = False"

fun f_le :: "pyfloat \<Rightarrow> pyfloat \<Rightarrow> bool" where
  "f_le (Fin a) (Fin b) = (a \<le> b)"
| "f_le NaN b = False"
| "f_le a NaN = False"
| "f_le a PInf = True"
| "f_le NInf b = True"
| "f_le a b = False"

definition py_truediv_f :: "pyfloat \<Rightarrow> pyfloat \<Rightarrow> py_error + pyfloat" where
  "py_truediv_f a b = (if b = Fin 0 then Inl ZeroDivisionError else Inr (f_div a b))"

fun py_square :: "pyfloat \<Rightarrow> py_error + pyfloat" where
  "py_square (Fin a) = (case fl (a * a) of Fin y \<Rightarrow> Inr (Fin y) | _ \<Rightarrow> Inl OverflowError)"
| "py_square PInf = Inr PInf"
| "py_square NInf = Inr PInf"
| "py_square NaN = Inr NaN"

fun math_sqrt_f :: "pyfloat \<Rightarrow> py_error + pyfloat" where
  "math_sqrt_f (Fin a) = (if a < 0 then Inl ValueError else Inr (fl (sqrt a)))"
| "math_sqrt_f PInf = Inr PInf"
| "math_sqrt_f NInf = Inl ValueError"
| "math_sqrt_f NaN = Inr NaN"

fun math_atan2_f :: "pyfloat \<Rightarrow> pyfloat \<Rightarrow> pyfloat" where
  "math_atan2_f (Fin y) (Fin x) = fl (math_atan2 y x)"
| "math_atan2_f NaN x = NaN"
| "math_atan2_f y NaN = NaN"
| "math_atan2_f PInf PInf = fl (pi / 4)"
| "math_atan2_f NInf PInf = fl (- (pi / 4))"
| "math_atan2_f PInf NInf = fl (3 * pi / 4)"
| "math_atan2_f NInf NInf = fl (- (3 * pi / 4))"
| "math_atan2_f PInf (Fin x) = fl (pi / 2)"
| "math_atan2_f NInf (Fin x) = fl (- (pi / 2))"
| "math_atan2_f (Fin y) PInf = Fin 0"
| "math_atan2_f (Fin y) NInf = (if 0 \<le> y then fl pi else fl (- pi))"

definition rad_to_deg :: real where
  "rad_to_deg = fl_real (180 / fl_real pi)"

definition deg_to_rad :: real where
  "deg_to_rad = fl_real (fl_real pi / 180)"

definition math_degrees_f :: "pyfloat \<Rightarrow> pyfloat" where
  "math_degrees_f x = f_mul x (Fin rad_to_deg)"

definition math_radians_f :: "pyfloat \<Rightarrow> pyfloat" where
  "math_radians_f x = f_mul x (Fin deg_to_rad)"

fun math_cos_f :: "pyfloat \<Rightarrow> py_error + pyfloat" where
  "math_cos_f (Fin a) = Inr (fl (cos a))"
| "math_cos_f NaN = Inr NaN"
| "math_cos_f a = Inl ValueError"

fun math_sin_f :: "pyfloat \<Rightarrow> py_error + pyfloat" where
  "math_sin_f (Fin a) = Inr (fl (sin a))"
| "math_sin_f NaN = Inr NaN"
| "math_sin_f a = Inl ValueError"

definition py_min :: "pyfloat \<Rightarrow> pyfloat \<Rightarrow> pyfloat" where
  "py_min a b = (if f_less b a then b else a)"

definition py_max :: "pyfloat \<Rightarrow> pyfloat \<Rightarrow> pyfloat" where
  "py_max a b = (if f_less a b then b else a)"

type_synonym sample_f = "pyfloat \<times> pyfloat \<times> pyfloat \<times> pyfloat \<times> pyfloat \<times> pyfloat"

definition calculate_power_factor_f ::
    "pyfloat \<Rightarrow> pyfloat \<Rightarrow> pyfloat \<Rightarrow> pyfloat \<Rightarrow> py_error + sample_f" where
  "calculate_power_factor_f voltage impedance_real impedance_imag excitation_current =
     (let compensated_impedance_imag = f_sub impedance_imag (f_mul excitation_current (Fin 2))
      in case py_square impedance_real of Inl e \<Rightarrow> Inl e | Inr r2 \<Rightarrow>
        (case py_square compensated_impedance_imag of Inl e \<Rightarrow> Inl e | Inr c2 \<Rightarrow>
        (case math_sqrt_f (f_add r2 c2) of Inl e \<Rightarrow> Inl e | Inr impedance_magnitude \<Rightarrow>
        (case (if f_less (Fin 0) impedance_magnitude
               then py_truediv_f voltage impedance_magnitude else Inr (Fin 0)) of
           Inl e \<Rightarrow> Inl e | Inr current \<Rightarrow>
        (let angle = math_degrees_f (math_atan2_f compensated_impedance_imag impedance_real)
         in case math_cos_f (math_radians_f angle) of Inl e \<Rightarrow> Inl e | Inr c \<Rightarrow>
           (let real_power = f_mul (f_mul voltage current) c;
                apparent_power = f_mul voltage current
            in case math_sin_f (math_radians_f angle) of Inl e \<Rightarrow> Inl e | Inr s \<Rightarrow>
              (let reactive_power = f_mul (f_mul voltage current) s
               in case (if f_less (Fin 0) apparent_power
                        then py_truediv_f real_power apparent_power else Inr (Fin 0)) of
                    Inl e \<Rightarrow> Inl e
                  | Inr power_factor \<Rightarrow>
                      Inr (current, py_max (Fin 0) (py_min power_factor (Fin 1)), angle,
                           real_power, apparent_power, reactive_power))))))))"

text \<open>The first local variable of the function, and two tests on a float used below.\<close>

definition compensated_reactance_f :: "pyfloat \<Rightarrow> pyfloat \<Rightarrow> pyfloat" where
  "compensated_reactance_f impedance_imag excitation_current =
     f_sub impedance_imag (f_mul excitation_current (Fin 2))"

definition not_negative :: "pyfloat \<Rightarrow> bool" where
  "not_negative y = (case y of Fin t \<Rightarrow> 0 \<le> t | PInf \<Rightarrow> True | NInf \<Rightarrow> False | NaN \<Rightarrow> True)"

definition bounded_by :: "real \<Rightarrow> pyfloat \<Rightarrow> bool" where
  "bounded_by b y = (case y of Fin t \<Rightarrow> \<bar>t\<bar> \<le> b | PInf \<Rightarrow> False | NInf \<Rightarrow> False | NaN \<Rightarrow> True)"

section \<open>The dials and the session\<close>

subsection \<open>\<^verbatim>\<open>RotaryDial\<close> (lines 21 to 67)\<close>

text \<open>The field \<^verbatim>\<open>value\<close> of the source is \<open>val\<close> here.\<close>

record dial =
  min_val :: real
  max_val :: real
  val :: real
  angle :: real
  step :: real

definition RotaryDial_init :: "real \<Rightarrow> real \<Rightarrow> real \<Rightarrow> real \<Rightarrow> py_error + dial" where
  "RotaryDial_init min_v max_v initial_val stp =
     (case py_truediv (initial_val - min_v) (max_v - min_v) of
        Inl e \<Rightarrow> Inl e
      | Inr q \<Rightarrow>
          Inr \<lparr>min_val = min_v, max_val = max_v, val = initial_val, angle = q * 360, step = stp\<rparr>)"

text \<open>
  \<^verbatim>\<open>on_drag\<close> up to line 65: what a drag at the pixel \<open>(event_x, event_y)\<close> does to the
  dial itself. Redrawing and the callback follow below, where the session is in scope.
\<close>

definition on_drag_dial :: "int \<Rightarrow> int \<Rightarrow> dial \<Rightarrow> py_error + dial" where
  "on_drag_dial event_x event_y d =
     (let dx = event_x - 100;
          dy = event_y - 100;
          a = math_atan2 (of_int dy) (of_int dx);
          degrees = py_mod (math_degrees a + 450) 360;
          d1 = d\<lparr>angle := degrees\<rparr>;
          raw_value = min_val d1 + (max_val d1 - min_val d1) * (angle d1 / 360)
      in case py_truediv raw_value (step d1) of
           Inl e \<Rightarrow> Inl e
         | Inr q \<Rightarrow>
             (let d2 = d1\<lparr>val := of_int (py_round q) * step d1\<rparr>
              in Inr (d2\<lparr>val := max (min_val d2) (min (max_val d2) (val d2))\<rparr>)))"

subsection \<open>\<^verbatim>\<open>PowerSystemSimulator\<close> (lines 69 to 247)\<close>

datatype dial_id = RealDial | ImagDial | ExcDial

text \<open>
  The four messages of lines 218, 220, 222 and 224, and the status text: the readings
  of lines 208 to 214 followed by the messages inserted after them.
\<close>

datatype advisory = LaggingLow | LeadingLow | HighPF | Stable

datatype status_line =
    Readings real real real real real real real
  | Advisory advisory

text \<open>
  The calls made into the toolkit: \<^verbatim>\<open>draw_dial\<close> of a dial, \<^verbatim>\<open>canvas.draw\<close> of the
  plots, and \<^verbatim>\<open>root.after\<close> with its delay in milliseconds.
\<close>

datatype ui_call = DrawDial dial_id | CanvasDraw | After nat

text \<open>
  The session. Besides the attributes of the source it holds what the toolkit holds for
  it: the text of the status widget, the calls made into the toolkit so far, and the
  callbacks registered with \<^verbatim>\<open>root.after\<close> that have not fired yet (their delays,
  oldest first).
\<close>

record sim =
  voltage :: real
  impedance_real :: real
  impedance_imag :: real
  excitation_current :: real
  power_factor_history :: "real list"
  dynamic_mode :: bool
  real_impedance_dial :: dial
  imag_impedance_dial :: dial
  excitation_dial :: dial
  status_display :: "status_line list"
  ui_calls :: "ui_call list"
  scheduled :: "nat list"

fun get_dial :: "dial_id \<Rightarrow> sim \<Rightarrow> dial" where
  "get_dial RealDial s = real_impedance_dial s"
| "get_dial ImagDial s = imag_impedance_dial s"
| "get_dial ExcDial s = excitation_dial s"

fun set_dial :: "dial_id \<Rightarrow> dial \<Rightarrow> sim \<Rightarrow> sim" where
  "set_dial RealDial d s = s\<lparr>real_impedance_dial := d\<rparr>"
| "set_dial ImagDial d s = s\<lparr>imag_impedance_dial := d\<rparr>"
| "set_dial ExcDial d s = s\<lparr>excitation_dial := d\<rparr>"

definition draw_dial :: "dial_id \<Rightarrow> sim \<Rightarrow> sim" where
  "draw_dial w s = s\<lparr>ui_calls := ui_calls s @ [DrawDial w]\<rparr>"

text \<open>
  \<^verbatim>\<open>__init__\<close> and \<^verbatim>\<open>setup_ui\<close>: the attributes of lines 73 to 78 and the three dials
  of lines 85 to 113, each drawn once by its constructor.
\<close>

definition PowerSystemSimulator_init :: "py_error + sim" where
  "PowerSystemSimulator_init =
     (case RotaryDial_init 1 20 5 0.5 of Inl e \<Rightarrow> Inl e | Inr rd \<Rightarrow>
      case RotaryDial_init 1 20 5 0.5 of Inl e \<Rightarrow> Inl e | Inr xd \<Rightarrow>
      case RotaryDial_init 0 10 0 0.5 of Inl e \<Rightarrow> Inl e | Inr ed \<Rightarrow>
        Inr \<lparr>voltage = 230, impedance_real = 5, impedance_imag = 5, excitation_current = 0,
             power_factor_history = [], dynamic_mode = False,
             real_impedance_dial = rd, imag_impedance_dial = xd, excitation_dial = ed,
             status_display = [],
             ui_calls = [DrawDial RealDial, DrawDial ImagDial, DrawDial ExcDial],
             scheduled = []\<rparr>)"

text \<open>
  Lines 216 to 224 of \<^verbatim>\<open>update_status\<close>: the messages inserted after the readings, one
  list element for each \<^verbatim>\<open>insert\<close> that runs.
\<close>

definition classify :: "real \<Rightarrow> real \<Rightarrow> advisory list" where
  "classify power_factor reactive_power =
     (if power_factor < 0.95 then
        (if 0 < reactive_power then [LaggingLow]
         else if reactive_power < 0 then [LeadingLow]
         else [])
      else if 0.98 < power_factor then [HighPF]
      else if 0.95 \<le> power_factor \<and> power_factor \<le> 0.98 then [Stable]
      else [])"

definition update_status :: "real \<Rightarrow> real \<Rightarrow> real \<Rightarrow> real \<Rightarrow> real \<Rightarrow> real \<Rightarrow> sim \<Rightarrow> sim" where
  "update_status real_power apparent_power reactive_power power_factor phase current s =
     s\<lparr>status_display :=
         Readings (voltage s) real_power apparent_power reactive_power power_factor phase current
         # map Advisory (classify power_factor reactive_power)\<rparr>"

definition update_plot :: "real \<Rightarrow> real \<Rightarrow> sim \<Rightarrow> sim" where
  "update_plot phase current s = s\<lparr>ui_calls := ui_calls s @ [CanvasDraw]\<rparr>"

definition update_simulation :: "sim \<Rightarrow> py_error + sim" where
  "update_simulation s =
     (let s1 = s\<lparr>impedance_real := val (real_impedance_dial s)\<rparr>;
          s2 = s1\<lparr>impedance_imag := val (imag_impedance_dial s1)\<rparr>;
          s3 = s2\<lparr>excitation_current := val (excitation_dial s2)\<rparr>
      in case calculate_power_factor (voltage s3) (impedance_real s3) (impedance_imag s3)
                (excitation_current s3) of
           Inl e \<Rightarrow> Inl e
         | Inr (current, power_factor, phase, real_power, apparent_power, reactive_power) \<Rightarrow>
             (let s4 = s3\<lparr>power_factor_history := power_factor_history s3 @ [power_factor]\<rparr>;
                  s5 = update_status real_power apparent_power reactive_power power_factor
                         phase current s4
              in Inr (update_plot phase current s5)))"

text \<open>\<^verbatim>\<open>on_drag\<close> of the dial \<open>w\<close>, with lines 66 and 67: redraw, then the callback.\<close>

definition on_drag :: "dial_id \<Rightarrow> int \<Rightarrow> int \<Rightarrow> sim \<Rightarrow> py_error + sim" where
  "on_drag w event_x event_y s =
     (case on_drag_dial event_x event_y (get_dial w s) of
        Inl e \<Rightarrow> Inl e
      | Inr d \<Rightarrow> update_simulation (draw_dial w (set_dial w d s)))"

text \<open>
  \<^verbatim>\<open>random.uniform(a, b)\<close> is \<^verbatim>\<open>a + (b - a) * random()\<close>, where \<^verbatim>\<open>random()\<close> draws
  \<open>u\<close> with \<open>0 \<le> u < 1\<close>. The draw is an argument of the model.
\<close>

definition random_uniform :: "real \<Rightarrow> real \<Rightarrow> real \<Rightarrow> real" where
  "random_uniform a b u = a + (b - a) * u"

definition set_static_mode :: "sim \<Rightarrow> sim" where
  "set_static_mode s = s\<lparr>dynamic_mode := False\<rparr>"

definition simulate_dynamic_load :: "real \<Rightarrow> real \<Rightarrow> sim \<Rightarrow> py_error + sim" where
  "simulate_dynamic_load u1 u2 s =
     (if dynamic_mode s then
        (let rd = real_impedance_dial s;
             s1 = s\<lparr>real_impedance_dial := rd\<lparr>val := val rd * random_uniform 0.95 1.05 u1\<rparr>\<rparr>;
             xd = imag_impedance_dial s1;
             s2 = s1\<lparr>imag_impedance_dial := xd\<lparr>val := val xd * random_uniform 0.95 1.05 u2\<rparr>\<rparr>;
             s3 = draw_dial RealDial s2;
             s4 = draw_dial ImagDial s3
         in case update_simulation s4 of
              Inl e \<Rightarrow> Inl e
            | Inr s5 \<Rightarrow>
                Inr (s5\<lparr>ui_calls := ui_calls s5 @ [After 2000],
                        scheduled := scheduled s5 @ [2000]\<rparr>))
      else Inr s)"

definition set_dynamic_mode :: "real \<Rightarrow> real \<Rightarrow> sim \<Rightarrow> py_error + sim" where
  "set_dynamic_mode u1 u2 s = simulate_dynamic_load u1 u2 (s\<lparr>dynamic_mode := True\<rparr>)"

subsection \<open>The event loop\<close>

text \<open>
  What the toolkit can call: a drag on a dial, a click on one of the two buttons, and
  the oldest callback registered with \<^verbatim>\<open>root.after\<close>, which is then no longer
  registered. The events that run \<^verbatim>\<open>simulate_dynamic_load\<close> carry its two random draws.
\<close>

datatype event =
    Drag dial_id int int
  | ClickStatic
  | ClickDynamic real real
  | TimerFires real real

fun fire :: "event \<Rightarrow> sim \<Rightarrow> py_error + sim" where
  "fire (Drag w event_x event_y) s = on_drag w event_x event_y s"
| "fire ClickStatic s = Inr (set_static_mode s)"
| "fire (ClickDynamic u1 u2) s = set_dynamic_mode u1 u2 s"
| "fire (TimerFires u1 u2) s =
     (case scheduled s of
        [] \<Rightarrow> Inr s
      | delay # rest \<Rightarrow> simulate_dynamic_load u1 u2 (s\<lparr>scheduled := rest\<rparr>))"

fun run :: "event list \<Rightarrow> sim \<Rightarrow> py_error + sim" where
  "run [] s = Inr s"
| "run (ev # evs) s = (case fire ev s of Inl e \<Rightarrow> Inl e | Inr s' \<Rightarrow> run evs s')"

text \<open>The draws of \<^verbatim>\<open>random()\<close> are in \<open>[0, 1)\<close>.\<close>

fun draws_ok :: "event \<Rightarrow> bool" where
  "draws_ok (ClickDynamic u1 u2) = (0 \<le> u1 \<and> u1 < 1 \<and> 0 \<le> u2 \<and> u2 < 1)"
| "draws_ok (TimerFires u1 u2) = (0 \<le> u1 \<and> u1 < 1 \<and> 0 \<le> u2 \<and> u2 < 1)"
| "draws_ok ev = True"


text \<open>
  The number of \<^verbatim>\<open>root.after\<close> calls so far. Line 190 is the only such call and is
  the last statement of the guarded body of \<^verbatim>\<open>simulate_dynamic_load\<close>, so this counts
  the perturb-and-redraw cycles that have run.
\<close>

fun is_after :: "ui_call \<Rightarrow> bool" where
  "is_after (After delay) = True"
| "is_after c = False"

definition after_calls :: "sim \<Rightarrow> nat" where
  "after_calls s = length (filter is_after (ui_calls s))"

section \<open>Properties of the power-factor model\<close>

lemma math_sqrt_sum_squares: "math_sqrt (a\<^sup>2 + b\<^sup>2) = Inr (sqrt (a\<^sup>2 + b\<^sup>2))"
  by (simp add: math_sqrt_def not_less)

lemma radians_degrees [simp]: "math_radians (math_degrees t) = t"
  by (simp add: math_radians_def math_degrees_def)

text \<open>
  The function returns on every input, and its result is made of the local variables
  above: the square root is taken of a sum of squares, and both divisions are reached
  only with a positive divisor.
\<close>

lemma calculate_power_factor_eq:
  "calculate_power_factor v r x e =
     Inr (current_of v r x e, max 0 (min (raw_power_factor v r x e) 1), angle_of r x e,
          real_power_of v r x e, apparent_power_of v r x e, reactive_power_of v r x e)"
  unfolding calculate_power_factor_def Let_def math_sqrt_sum_squares
  by (simp add: py_truediv_def raw_power_factor_def apparent_power_of_def real_power_of_def
      reactive_power_of_def current_of_def magnitude_def compensated_reactance_def angle_of_def)


subsection \<open>Signs and sizes of the local variables\<close>

lemma magnitude_pos: "0 < r \<Longrightarrow> 0 < magnitude r x e"
  unfolding magnitude_def
  by (simp add: sum_power2_gt_zero_iff)

lemma current_pos: "0 < v \<Longrightarrow> 0 < magnitude r x e \<Longrightarrow> 0 < current_of v r x e"
  by (simp add: current_of_def)

lemma apparent_pos: "0 < v \<Longrightarrow> 0 < magnitude r x e \<Longrightarrow> 0 < apparent_power_of v r x e"
  by (simp add: apparent_power_of_def current_pos)

lemma cancel_scaled: "(a::real) \<noteq> 0 \<Longrightarrow> a * t / a = t"
  by simp

lemma power_ratio:
  assumes "0 < apparent_power_of v r x e"
  shows "real_power_of v r x e / apparent_power_of v r x e = cos (math_radians (angle_of r x e))"
proof -
  have "v * current_of v r x e \<noteq> 0"
    using assms unfolding apparent_power_of_def by (rule less_imp_neq [symmetric])
  then show ?thesis
    unfolding real_power_of_def apparent_power_of_def by (rule cancel_scaled)
qed

lemma raw_is_cos:
  "0 < v \<Longrightarrow> 0 < magnitude r x e \<Longrightarrow>
   raw_power_factor v r x e = cos (math_radians (angle_of r x e))"
  using apparent_pos [of v r x e] power_ratio [of v r x e]
  by (simp add: raw_power_factor_def)

lemma raw_le_1: "raw_power_factor v r x e \<le> 1"
  using power_ratio [of v r x e] by (simp add: raw_power_factor_def)

lemma atan2_pos_real: "0 < r \<Longrightarrow> math_atan2 c r = arctan (c / r)"
  by (simp add: math_atan2_def)

lemma angle_of_pos_real:
  "0 < r \<Longrightarrow> angle_of r x e = arctan (compensated_reactance x e / r) * 180 / pi"
  by (simp add: angle_of_def math_degrees_def atan2_pos_real)

lemma sgn_angle: "0 < r \<Longrightarrow> sgn (angle_of r x e) = sgn (compensated_reactance x e)"
  by (simp add: angle_of_pos_real sgn_real_def zero_less_divide_iff divide_less_0_iff
      zero_less_mult_iff)

lemma angle_decreasing:
  assumes "0 < r" "e1 < e2"
  shows "angle_of r x e2 < angle_of r x e1"
proof -
  have "compensated_reactance x e2 / r < compensated_reactance x e1 / r"
    using assms by (simp add: compensated_reactance_def divide_strict_right_mono)
  then have "arctan (compensated_reactance x e2 / r) < arctan (compensated_reactance x e1 / r)"
    by (rule arctan_monotone)
  then show ?thesis using assms(1)
    by (simp add: angle_of_pos_real divide_strict_right_mono)
qed

lemma sgn_divide_pos: "0 < (d::real) \<Longrightarrow> sgn (c / d) = sgn c"
  by (simp add: sgn_real_def zero_less_divide_iff divide_less_0_iff)

lemma sgn_times_pos: "0 < (k::real) \<Longrightarrow> sgn (k * t) = sgn t"
  by (simp add: sgn_mult)

lemma sgn_sin_arctan: "sgn (sin (arctan t)) = sgn t"
proof -
  have "0 < sqrt (1 + t\<^sup>2)" by (simp add: add_pos_nonneg)
  then show ?thesis unfolding sin_arctan by (rule sgn_divide_pos)
qed

lemma sgn_reactive:
  assumes "0 < v" "0 < r"
  shows "sgn (reactive_power_of v r x e) = sgn (compensated_reactance x e)"
proof -
  have i: "0 < v * current_of v r x e"
    using assms by (simp add: current_pos magnitude_pos)
  have "math_radians (angle_of r x e) = arctan (compensated_reactance x e / r)"
    using assms(2) by (simp add: angle_of_def atan2_pos_real)
  then have "sgn (sin (math_radians (angle_of r x e))) = sgn (compensated_reactance x e / r)"
    by (simp add: sgn_sin_arctan)
  also have "\<dots> = sgn (compensated_reactance x e)"
    using assms(2) by (rule sgn_divide_pos)
  finally have "sgn (sin (math_radians (angle_of r x e))) = sgn (compensated_reactance x e)" .
  moreover have "sgn (reactive_power_of v r x e) = sgn (sin (math_radians (angle_of r x e)))"
    unfolding reactive_power_of_def using i by (rule sgn_times_pos)
  ultimately show ?thesis by simp
qed

subsection \<open>The clamp\<close>

text \<open>
  Claim C1. For a real impedance of at least 1, an imaginary impedance in \<open>[1, 20]\<close>, an
  excitation current in \<open>[0, 10]\<close> and a voltage that is not negative,
  \<^verbatim>\<open>calculate_power_factor\<close> returns, and the power factor it returns is the raw
  quotient clamped: \<open>max 0 (min raw 1)\<close>, so a raw value below 0 becomes 0, one above 1
  becomes 1, and the result lies in \<open>[0, 1]\<close>.
\<close>

theorem power_factor_clamped:
  assumes "1 \<le> r" "1 \<le> x" "x \<le> 20" "0 \<le> e" "e \<le> 10" "0 \<le> v"
  shows "\<exists>i pf a p s q. calculate_power_factor v r x e = Inr (i, pf, a, p, s, q)
     \<and> pf = max 0 (min (raw_power_factor v r x e) 1) \<and> 0 \<le> pf \<and> pf \<le> 1"
  by (simp add: calculate_power_factor_eq)

theorem power_factor_clamped_witness:
  "(1::real) \<le> 5 \<and> (1::real) \<le> 5 \<and> (5::real) \<le> 20 \<and> (0::real) \<le> 0 \<and> (0::real) \<le> 10
   \<and> (0::real) \<le> 230
   \<and> (\<exists>i pf a p s q. calculate_power_factor 230 5 5 0 = Inr (i, pf, a, p, s, q)
        \<and> pf = max 0 (min (raw_power_factor 230 5 5 0) 1) \<and> 0 \<le> pf \<and> pf \<le> 1)"
  using power_factor_clamped [of 5 5 0 230] by simp

subsection \<open>Totality\<close>

text \<open>
  Claim C5. On every input \<^verbatim>\<open>calculate_power_factor\<close> returns a sample and raises
  nothing: the square root is defined, the current is \<open>voltage / impedance_magnitude\<close>
  when the magnitude is positive and 0 otherwise, and the raw power factor is
  \<open>real_power / apparent_power\<close> when the apparent power is positive and 0 otherwise.
\<close>

theorem calculate_power_factor_total:
  "\<exists>i pf a p s q. calculate_power_factor v r x e = Inr (i, pf, a, p, s, q)
     \<and> math_sqrt (r\<^sup>2 + (x - e * 2)\<^sup>2) = Inr (magnitude r x e)
     \<and> i = (if 0 < magnitude r x e then v / magnitude r x e else 0)
     \<and> raw_power_factor v r x e = (if 0 < s then p / s else 0)
     \<and> pf = max 0 (min (raw_power_factor v r x e) 1)"
  by (simp add: calculate_power_factor_eq math_sqrt_sum_squares magnitude_def
      compensated_reactance_def current_of_def raw_power_factor_def)

theorem calculate_power_factor_total_witness:
  "\<exists>i pf a p s q. calculate_power_factor 230 0 4 2 = Inr (i, pf, a, p, s, q)
     \<and> math_sqrt (0\<^sup>2 + (4 - 2 * 2)\<^sup>2) = Inr (magnitude 0 4 2)
     \<and> i = (if 0 < magnitude 0 4 2 then 230 / magnitude 0 4 2 else 0)
     \<and> raw_power_factor 230 0 4 2 = (if 0 < s then p / s else 0)
     \<and> pf = max 0 (min (raw_power_factor 230 0 4 2) 1)"
  by (rule calculate_power_factor_total)

subsection \<open>Excitation current and phase angle\<close>

text \<open>
  Claim C6. With the voltage and both impedances fixed and a positive real impedance,
  raising the excitation current from \<open>e1\<close> to \<open>e2\<close> strictly lowers the compensated
  reactance \<open>impedance_imag - 2 * excitation_current\<close> and strictly lowers the phase
  angle; while the compensated reactance is still positive the angle stays positive, so
  it moves toward 0; and the angle always has the sign of the compensated reactance, so
  it is 0 where the reactance is 0 and negative once the reactance is negative.
\<close>

theorem excitation_lowers_phase_angle:
  assumes "0 < r" "e1 < e2"
  shows "\<exists>i1 pf1 a1 p1 s1 q1 i2 pf2 a2 p2 s2 q2.
      calculate_power_factor v r x e1 = Inr (i1, pf1, a1, p1, s1, q1)
    \<and> calculate_power_factor v r x e2 = Inr (i2, pf2, a2, p2, s2, q2)
    \<and> compensated_reactance x e2 < compensated_reactance x e1
    \<and> a2 < a1
    \<and> (0 < compensated_reactance x e2 \<longrightarrow> 0 < a2 \<and> a2 < a1)
    \<and> sgn a1 = sgn (compensated_reactance x e1)
    \<and> sgn a2 = sgn (compensated_reactance x e2)"
proof -
  have c: "compensated_reactance x e2 < compensated_reactance x e1"
    using assms(2) by (simp add: compensated_reactance_def)
  have d: "angle_of r x e2 < angle_of r x e1" using assms by (rule angle_decreasing)
  have s1: "sgn (angle_of r x e1) = sgn (compensated_reactance x e1)"
    using assms(1) by (rule sgn_angle)
  have s2: "sgn (angle_of r x e2) = sgn (compensated_reactance x e2)"
    using assms(1) by (rule sgn_angle)
  have p: "0 < compensated_reactance x e2 \<longrightarrow> 0 < angle_of r x e2"
    using s2 by (auto simp: sgn_real_def split: if_splits)
  show ?thesis
    unfolding calculate_power_factor_eq using c d s1 s2 p by simp
qed

theorem excitation_lowers_phase_angle_witness:
  "(0::real) < 5 \<and> (0::real) < 1
   \<and> (\<exists>i1 pf1 a1 p1 s1 q1 i2 pf2 a2 p2 s2 q2.
      calculate_power_factor 230 5 5 0 = Inr (i1, pf1, a1, p1, s1, q1)
    \<and> calculate_power_factor 230 5 5 1 = Inr (i2, pf2, a2, p2, s2, q2)
    \<and> compensated_reactance 5 1 < compensated_reactance 5 0
    \<and> a2 < a1
    \<and> (0 < compensated_reactance 5 1 \<longrightarrow> 0 < a2 \<and> a2 < a1)
    \<and> sgn a1 = sgn (compensated_reactance 5 0)
    \<and> sgn a2 = sgn (compensated_reactance 5 1))
   \<and> 0 < compensated_reactance 5 1"
proof -
  have h1: "(0::real) < 5" by simp
  have h2: "(0::real) < 1" by simp
  have h3: "0 < compensated_reactance 5 1" by (simp add: compensated_reactance_def)
  show ?thesis
    using h1 h2 h3 excitation_lowers_phase_angle [OF h1 h2, of 230 5] by blast
qed

subsection \<open>The power factor is the cosine of the phase angle\<close>

text \<open>
  Claim C9. For a positive voltage and a positive impedance magnitude the apparent
  power is positive, the raw quotient \<open>real_power / apparent_power\<close> is the cosine of
  the phase angle in radians, and the returned power factor is the larger of 0 and that
  cosine. The raw quotient is at most 1, so \<open>min raw 1\<close> leaves it as it is.
\<close>

theorem power_factor_is_cosine:
  assumes "0 < v" "0 < magnitude r x e"
  shows "\<exists>i pf a p s q. calculate_power_factor v r x e = Inr (i, pf, a, p, s, q)
     \<and> 0 < s \<and> p / s = cos (math_radians a)
     \<and> raw_power_factor v r x e = p / s
     \<and> pf = max 0 (cos (math_radians a))
     \<and> raw_power_factor v r x e \<le> 1
     \<and> min (raw_power_factor v r x e) 1 = raw_power_factor v r x e"
proof -
  have s: "0 < apparent_power_of v r x e" using assms by (rule apparent_pos)
  have c: "raw_power_factor v r x e = cos (math_radians (angle_of r x e))"
    using assms by (rule raw_is_cos)
  have d: "real_power_of v r x e / apparent_power_of v r x e = raw_power_factor v r x e"
    using s by (simp add: raw_power_factor_def)
  show ?thesis
    unfolding calculate_power_factor_eq using s c d raw_le_1 [of v r x e] by simp
qed

theorem power_factor_is_cosine_witness:
  "(0::real) < 230 \<and> 0 < magnitude 5 5 0
   \<and> (\<exists>i pf a p s q. calculate_power_factor 230 5 5 0 = Inr (i, pf, a, p, s, q)
     \<and> 0 < s \<and> p / s = cos (math_radians a)
     \<and> raw_power_factor 230 5 5 0 = p / s
     \<and> pf = max 0 (cos (math_radians a))
     \<and> raw_power_factor 230 5 5 0 \<le> 1
     \<and> min (raw_power_factor 230 5 5 0) 1 = raw_power_factor 230 5 5 0)"
proof -
  have h1: "(0::real) < 230" by simp
  have h2: "0 < magnitude 5 5 0" by (simp add: magnitude_def compensated_reactance_def)
  show ?thesis
    using h1 h2 power_factor_is_cosine [OF h1 h2] by blast
qed

subsection \<open>The sign of the reactive power\<close>

text \<open>
  Claim C10. For a positive voltage and a positive real impedance, the reactive power
  returned has the sign of the compensated reactance: it is positive exactly when
  \<open>impedance_imag > 2 * excitation_current\<close>, zero exactly when they are equal, and
  negative exactly when \<open>impedance_imag < 2 * excitation_current\<close>.
\<close>

theorem reactive_power_sign:
  assumes "0 < v" "0 < r"
  shows "\<exists>i pf a p s q. calculate_power_factor v r x e = Inr (i, pf, a, p, s, q)
     \<and> sgn q = sgn (compensated_reactance x e)
     \<and> (0 < q \<longleftrightarrow> 2 * e < x) \<and> (q = 0 \<longleftrightarrow> x = 2 * e) \<and> (q < 0 \<longleftrightarrow> x < 2 * e)"
proof -
  have s: "sgn (reactive_power_of v r x e) = sgn (compensated_reactance x e)"
    using assms by (rule sgn_reactive)
  then have "(0 < reactive_power_of v r x e \<longleftrightarrow> 2 * e < x)
     \<and> (reactive_power_of v r x e = 0 \<longleftrightarrow> x = 2 * e)
     \<and> (reactive_power_of v r x e < 0 \<longleftrightarrow> x < 2 * e)"
    by (auto simp: sgn_real_def compensated_reactance_def split: if_splits)
  then show ?thesis
    unfolding calculate_power_factor_eq using s by simp
qed

theorem reactive_power_sign_witness:
  "(0::real) < 230 \<and> (0::real) < 5
   \<and> (\<exists>i pf a p s q. calculate_power_factor 230 5 5 5 = Inr (i, pf, a, p, s, q)
     \<and> sgn q = sgn (compensated_reactance 5 5)
     \<and> (0 < q \<longleftrightarrow> 2 * 5 < (5::real)) \<and> (q = 0 \<longleftrightarrow> (5::real) = 2 * 5)
     \<and> (q < 0 \<longleftrightarrow> (5::real) < 2 * 5))"
proof -
  have h1: "(0::real) < 230" by simp
  have h2: "(0::real) < 5" by simp
  show ?thesis
    using h1 h2 reactive_power_sign [OF h1 h2, of 5 5] by blast
qed

section \<open>Properties of the session\<close>

subsection \<open>Recomputation\<close>

lemma update_simulation_eq:
  "\<exists>st. update_simulation s =
     Inr (s\<lparr>impedance_real := val (real_impedance_dial s),
            impedance_imag := val (imag_impedance_dial s),
            excitation_current := val (excitation_dial s),
            power_factor_history := power_factor_history s @
               [max 0 (min (raw_power_factor (voltage s) (val (real_impedance_dial s))
                  (val (imag_impedance_dial s)) (val (excitation_dial s))) 1)],
            status_display := st,
            ui_calls := ui_calls s @ [CanvasDraw]\<rparr>)"
  by (simp add: update_simulation_def calculate_power_factor_eq update_status_def update_plot_def)
     (rule exI, rule refl)


lemma simulate_dynamic_load_on:
  assumes "dynamic_mode s"
  shows "\<exists>s'. simulate_dynamic_load u1 u2 s = Inr s'
     \<and> val (real_impedance_dial s') = val (real_impedance_dial s) * random_uniform 0.95 1.05 u1
     \<and> val (imag_impedance_dial s') = val (imag_impedance_dial s) * random_uniform 0.95 1.05 u2
     \<and> min_val (real_impedance_dial s') = min_val (real_impedance_dial s)
     \<and> max_val (real_impedance_dial s') = max_val (real_impedance_dial s)
     \<and> excitation_dial s' = excitation_dial s
     \<and> impedance_real s' = val (real_impedance_dial s')
     \<and> impedance_imag s' = val (imag_impedance_dial s')
     \<and> excitation_current s' = val (excitation_dial s')
     \<and> (\<exists>pf. power_factor_history s' = power_factor_history s @ [pf])
     \<and> ui_calls s' = ui_calls s @ [DrawDial RealDial, DrawDial ImagDial, CanvasDraw, After 2000]
     \<and> scheduled s' = scheduled s @ [2000]
     \<and> dynamic_mode s'"
proof -
  define s4 where "s4 = draw_dial ImagDial (draw_dial RealDial
     (s\<lparr>real_impedance_dial := (real_impedance_dial s)\<lparr>val := val (real_impedance_dial s) * random_uniform 0.95 1.05 u1\<rparr>,
        imag_impedance_dial := (imag_impedance_dial s)\<lparr>val := val (imag_impedance_dial s) * random_uniform 0.95 1.05 u2\<rparr>\<rparr>))"
  obtain st where u: "update_simulation s4 =
     Inr (s4\<lparr>impedance_real := val (real_impedance_dial s4),
            impedance_imag := val (imag_impedance_dial s4),
            excitation_current := val (excitation_dial s4),
            power_factor_history := power_factor_history s4 @
               [max 0 (min (raw_power_factor (voltage s4) (val (real_impedance_dial s4))
                  (val (imag_impedance_dial s4)) (val (excitation_dial s4))) 1)],
            status_display := st,
            ui_calls := ui_calls s4 @ [CanvasDraw]\<rparr>)"
    using update_simulation_eq [of s4] by blast
  have "simulate_dynamic_load u1 u2 s =
     (case update_simulation s4 of Inl e \<Rightarrow> Inl e
      | Inr s5 \<Rightarrow> Inr (s5\<lparr>ui_calls := ui_calls s5 @ [After 2000], scheduled := scheduled s5 @ [2000]\<rparr>))"
    using assms by (simp add: simulate_dynamic_load_def s4_def Let_def)
  then show ?thesis
    unfolding u using assms by (simp add: s4_def draw_dial_def)
qed


lemma on_drag_dial_eq:
  assumes "step d \<noteq> 0"
  shows "\<exists>d'. on_drag_dial ex ey d = Inr d' \<and> min_val d' = min_val d \<and> max_val d' = max_val d
     \<and> step d' = step d
     \<and> val d' = max (min_val d) (min (max_val d) (val d'))"
  using assms by (simp add: on_drag_dial_def Let_def py_truediv_def)

lemma on_drag_dial_range:
  assumes "on_drag_dial ex ey d = Inr d'" "min_val d \<le> max_val d"
  shows "min_val d' \<le> val d' \<and> val d' \<le> max_val d'"
  using assms by (auto simp: on_drag_dial_def Let_def py_truediv_def split: if_splits)



subsection \<open>The timer chain with dynamic mode off\<close>

lemma after_calls_append [simp]:
  "after_calls (s\<lparr>ui_calls := ui_calls s @ cs\<rparr>) = after_calls s + length (filter is_after cs)"
  by (simp add: after_calls_def)




subsection \<open>Evaluating a drag\<close>

lemma sqrt_25: "sqrt 25 = 5"
  using real_sqrt_abs [of 5] by simp

lemma atan2_straight_up: "math_atan2 (of_int (50 - 100)) (of_int (100 - 100)) = - (pi / 2)"
  by (simp add: math_atan2_def)

lemma degrees_quarter: "math_degrees (- (pi / 2)) = - 90"
  by (simp add: math_degrees_def)

lemma py_mod_full_turn: "py_mod (- 90 + 450) 360 = 0"
  by (simp add: py_mod_def)

lemma py_round_2: "py_round 2 = 2"
  by (simp add: py_round_def)

lemma drag_up:
  assumes "min_val d = 1" "max_val d = 20" "step d = 0.5"
  shows "on_drag_dial 100 50 d = Inr (d\<lparr>angle := 0, val := 1\<rparr>)"
proof -
  have h: "step d = 1 / 2" using assms(3) by simp
  show ?thesis
    unfolding on_drag_dial_def Let_def atan2_straight_up degrees_quarter py_mod_full_turn
    by (simp add: h assms(1,2) py_truediv_def py_round_2)
qed

section \<open>The advisory, the history, the timer and the dial ranges\<close>

subsection \<open>The advisory\<close>

text \<open>
  Claim C2. The advisory follows the branch order of the table: below 0.95 it is
  LaggingLow for a positive reactive power, LeadingLow for a negative one and no message
  for a reactive power of 0; otherwise it is HighPF above 0.98 and Stable in the band
  from 0.95 to 0.98, both ends included. Each row of the table is an equivalence, a
  power factor of exactly 0.98 is Stable, and a call produces one message or none.
\<close>

theorem advisory_classification:
  "classify pf rp =
     (if pf < 0.95 then
        (if 0 < rp then [LaggingLow] else if rp < 0 then [LeadingLow] else [])
      else if 0.98 < pf then [HighPF]
      else [Stable])
   \<and> (classify pf rp = [LaggingLow] \<longleftrightarrow> pf < 0.95 \<and> 0 < rp)
   \<and> (classify pf rp = [LeadingLow] \<longleftrightarrow> pf < 0.95 \<and> rp < 0)
   \<and> (classify pf rp = [] \<longleftrightarrow> pf < 0.95 \<and> rp = 0)
   \<and> (classify pf rp = [HighPF] \<longleftrightarrow> 0.98 < pf)
   \<and> (classify pf rp = [Stable] \<longleftrightarrow> 0.95 \<le> pf \<and> pf \<le> 0.98)
   \<and> classify 0.98 rp = [Stable]
   \<and> length (classify pf rp) \<le> 1"
  by (simp add: classify_def)

theorem advisory_classification_witness:
  "classify 0.9 0 = [] \<and> classify 0.98 0 = [Stable] \<and> length (classify 0.9 0) \<le> 1"
  using advisory_classification [of "0.9" 0] by simp

text \<open>
  Claim C4. The second scenario: a voltage of 230, both impedances 5 and an excitation
  current of 2.5 give a current of 46, a power factor of 1, a phase angle of 0, real and
  apparent power 10580 and reactive power 0; the advisory for a power factor of 1 and a
  reactive power of 0 is HighPF.
\<close>

theorem scenario_two:
  "calculate_power_factor 230 5 5 2.5 = Inr (46, 1, 0, 10580, 10580, 0)
   \<and> classify 1 0 = [HighPF]"
  by (simp add: calculate_power_factor_def math_sqrt_def py_truediv_def math_atan2_def
      math_degrees_def math_radians_def classify_def sqrt_25)

subsection \<open>The history\<close>



subsection \<open>The timer chain\<close>



subsection \<open>The dial ranges\<close>

text \<open>
  A drag leaves the value of the dial between its bounds (\<open>on_drag_dial_range\<close>, line 65
  of the source). \<^verbatim>\<open>simulate_dynamic_load\<close> multiplies the value and does not clamp it.

  Claim C3 says that every reachable state keeps both impedances in \<open>[1, 20]\<close>. The run
  below starts from the initial session: a drag straight up sets the real-impedance dial
  to its minimum 1, then a click on "Dynamic Mode" with the draw 0.1 multiplies it by
  0.96. The dial value and \<^verbatim>\<open>impedance_real\<close> are then 0.96, below the minimum.
\<close>

theorem dynamic_load_leaves_dial_range:
  "\<exists>s0 t. PowerSystemSimulator_init = Inr s0
     \<and> run [Drag RealDial 100 50, ClickDynamic 0.1 0.5] s0 = Inr t
     \<and> min_val (real_impedance_dial t) = 1
     \<and> val (real_impedance_dial t) = 0.96
     \<and> impedance_real t = 0.96
     \<and> impedance_real t < 1"
proof -
  define s0 where "s0 =
     \<lparr>voltage = 230, impedance_real = 5, impedance_imag = 5, excitation_current = 0,
          power_factor_history = [], dynamic_mode = False,
          real_impedance_dial = \<lparr>min_val = 1, max_val = 20, val = 5, angle = 4 / 19 * 360, step = 0.5\<rparr>,
          imag_impedance_dial = \<lparr>min_val = 1, max_val = 20, val = 5, angle = 4 / 19 * 360, step = 0.5\<rparr>,
          excitation_dial = \<lparr>min_val = 0, max_val = 10, val = 0, angle = 0, step = 0.5\<rparr>,
          status_display = [],
          ui_calls = [DrawDial RealDial, DrawDial ImagDial, DrawDial ExcDial],
          scheduled = []\<rparr>"
  have i: "PowerSystemSimulator_init = Inr s0"
    by (simp add: s0_def PowerSystemSimulator_init_def RotaryDial_init_def py_truediv_def)
  have d: "on_drag_dial 100 50 (real_impedance_dial s0)
      = Inr ((real_impedance_dial s0)\<lparr>angle := 0, val := 1\<rparr>)"
    by (rule drag_up) (simp_all add: s0_def)
  define s1 where "s1 = draw_dial RealDial
     (set_dial RealDial ((real_impedance_dial s0)\<lparr>angle := 0, val := 1\<rparr>) s0)"
  obtain s2 where s2: "update_simulation s1 = Inr s2"
     and r2: "real_impedance_dial s2 = real_impedance_dial s1"
    using update_simulation_eq [of s1] by auto
  have f1: "fire (Drag RealDial 100 50) s0 = Inr s2"
    using d s2 by (simp add: on_drag_def s1_def)
  have v2: "val (real_impedance_dial s2) = 1" "min_val (real_impedance_dial s2) = 1"
    by (simp_all add: r2 s1_def draw_dial_def s0_def)
  obtain t where t: "simulate_dynamic_load 0.1 0.5 (s2\<lparr>dynamic_mode := True\<rparr>) = Inr t"
    and vt: "val (real_impedance_dial t) = val (real_impedance_dial (s2\<lparr>dynamic_mode := True\<rparr>)) * random_uniform 0.95 1.05 0.1"
    and it: "impedance_real t = val (real_impedance_dial t)"
    and mt: "min_val (real_impedance_dial t) = min_val (real_impedance_dial (s2\<lparr>dynamic_mode := True\<rparr>))"
    using simulate_dynamic_load_on [of "s2\<lparr>dynamic_mode := True\<rparr>" "0.1" "0.5"] by auto
  have m: "min_val (real_impedance_dial t) = 1"
    using mt v2(2) by simp
  have f2: "fire (ClickDynamic 0.1 0.5) s2 = Inr t"
    using t by (simp add: set_dynamic_mode_def)
  have v: "val (real_impedance_dial t) = 0.96"
    using vt v2(1) by (simp add: random_uniform_def)
  have "run [Drag RealDial 100 50, ClickDynamic 0.1 0.5] s0 = Inr t"
    using f1 f2 by simp
  with i m v it show ?thesis by auto
qed

end
